theory Spec2Isabelle
  imports Main "HOL-Library.Word"
begin

section \<open>Data model of unrpyc.py\<close>

text \<open>
  Bytes objects are lists of 8-bit words. Python integers read out of the archive
  header by \<^verbatim>\<open>struct.unpack\<close> are unsigned and unbounded afterwards, so they are
  \<open>nat\<close>.
\<close>

type_synonym byte = "8 word"
type_synonym bytes = "byte list"

text \<open>
  The exceptions the script can see. All of them derive from Python's \<open>Exception\<close>.
  \<open>BadRpycException\<close> is the class declared in unrpyc.py itself; \<open>StructError\<close> is
  \<^verbatim>\<open>struct.error\<close>; \<open>ExternalError\<close> stands for whatever a collaborator module
  (decompiler, deobfuscate, renpycompat, translate) raises: those modules cannot raise
  \<open>BadRpycException\<close>, which only the script declares.
\<close>

datatype exn =
    BadRpycException string
  | StructError string
  | TypeError string
  | FileNotFoundError string
  | UnboundLocalError string
  | AttributeError string
  | KeyError string
  | PlainException string
  | ExternalError string

datatype State = Ok | Fail | Skip | Spoofed

type_synonym strings_dict = "string \<rightharpoonup> string"

text \<open>
  \<^verbatim>\<open>class Context\<close>: the per-file log, state and result. The result is \<open>None\<close>
  (what \<open>decompile_rpyc\<close> returns) or the pair \<open>extract_translations\<close> returns.
\<close>

record Context =
  log_contents :: "string list"
  state :: "State option"
  result_value :: "(bytes \<times> strings_dict) option"

definition Context_init :: Context where
  "Context_init = \<lparr>log_contents = [], state = None, result_value = None\<rparr>"

definition log :: "Context \<Rightarrow> string \<Rightarrow> Context" where
  "log c message = c\<lparr>log_contents := log_contents c @ [message]\<rparr>"

definition set_state :: "Context \<Rightarrow> State \<Rightarrow> Context" where
  "set_state c s = c\<lparr>state := Some s\<rparr>"

definition set_result :: "Context \<Rightarrow> (bytes \<times> strings_dict) option \<Rightarrow> Context" where
  "set_result c v = c\<lparr>result_value := v\<rparr>"

text \<open>
  A \<^verbatim>\<open>pathlib.Path\<close>, already split the way the script reads it: \<open>suffix\<close> is the
  last extension of the name (with its dot), \<open>with_suffix\<close> replaces it.
\<close>

record Path =
  parent :: string
  stem :: string
  suffix :: string

definition name :: "Path \<Rightarrow> string" where
  "name p = stem p @ suffix p"

definition path_str :: "Path \<Rightarrow> string" where
  "path_str p = parent p @ ''/'' @ name p"

definition with_suffix :: "Path \<Rightarrow> string \<Rightarrow> Path" where
  "with_suffix p ext = p\<lparr>suffix := ext\<rparr>"

text \<open>
  The file system the script acts on: the content of every existing file, and the
  sequence of files opened so far (for reading or for writing).
\<close>

datatype io_event = OpenRead Path | OpenWrite Path

record world =
  files :: "Path \<rightharpoonup> bytes"
  opened :: "io_event list"

definition exists_path :: "world \<Rightarrow> Path \<Rightarrow> bool" where
  "exists_path w p = (files w p \<noteq> None)"

definition open_rb :: "world \<Rightarrow> Path \<Rightarrow> (exn + bytes) \<times> world" where
  "open_rb w p =
     (let w' = w\<lparr>opened := opened w @ [OpenRead p]\<rparr> in
      case files w p of
        None \<Rightarrow> (Inl (FileNotFoundError (path_str p)), w')
      | Some content \<Rightarrow> (Inr content, w'))"

text \<open>Opening with mode \<^verbatim>\<open>'w'\<close> or \<^verbatim>\<open>'wb'\<close> creates or truncates the file.\<close>

definition open_w :: "world \<Rightarrow> Path \<Rightarrow> world" where
  "open_w w p = w\<lparr>files := (files w)(p \<mapsto> []), opened := opened w @ [OpenWrite p]\<rparr>"

definition write_file :: "world \<Rightarrow> Path \<Rightarrow> bytes \<Rightarrow> world" where
  "write_file w p content = w\<lparr>files := (files w)(p \<mapsto> content)\<rparr>"

datatype child_count = Many | Zero | One

type_synonym sl_names = "string \<rightharpoonup> (string \<times> child_count)"

text \<open>
  The collaborators the script imports, taken as parameters. \<open>'ast\<close> is the decoded
  statement list, \<open>'tr\<close> a loaded translator.
  \<^item> \<open>zlib_decompress\<close>: \<open>None\<close> when \<^verbatim>\<open>zlib.decompress\<close> raises;
  \<^item> \<open>pickle_safe_loads\<close>: the statements of \<^verbatim>\<open>_, stmts = pickle_safe_loads(contents)\<close>,
    or the message of the exception it raises;
  \<^item> \<open>deobfuscate_read_ast\<close>: \<^verbatim>\<open>deobfuscate.read_ast(in_file, context)\<close>, which may log;
  \<^item> \<open>astdump_pprint\<close>, \<open>decompiler_pprint\<close>: the text written to the output file so
    far and the exception raised, if any; the decompiler shares the log list;
  \<^item> \<open>load_translator\<close>: \<^verbatim>\<open>translate.Translator(None)\<close> filled from
    \<^verbatim>\<open>pickle_loads(args.translations)\<close>;
  \<^item> \<open>translate_dialogue\<close>: \<^verbatim>\<open>Translator(language, True).translate_dialogue(ast)\<close>
    followed by \<^verbatim>\<open>pickle_safe_dumps\<close> of the dialogue, paired with the strings;
  \<^item> \<open>pickle_loads\<close> of a dumped dialogue; \<open>pickle_safe_dump\<close> of the merged triple.
\<close>

record ('ast, 'tr) externals =
  zlib_decompress :: "bytes \<Rightarrow> bytes option"
  pickle_detect_python2 :: "bytes \<Rightarrow> bool"
  pickle_safe_loads :: "bytes \<Rightarrow> string + 'ast"
  deobfuscate_read_ast :: "bytes \<Rightarrow> Context \<Rightarrow> (string + 'ast) \<times> Context"
  astdump_pprint :: "'ast \<Rightarrow> bool \<Rightarrow> bool \<Rightarrow> bytes \<times> string option"
  decompiler_pprint ::
    "'ast \<Rightarrow> 'tr option \<Rightarrow> bool \<Rightarrow> sl_names option \<Rightarrow> string list
       \<Rightarrow> bytes \<times> string option \<times> string list"
  load_translator :: "bytes \<Rightarrow> string + 'tr"
  translate_dialogue :: "string option \<Rightarrow> 'ast \<Rightarrow> string + (bytes \<times> strings_dict)"
  pickle_loads :: "bytes \<Rightarrow> string + (string \<rightharpoonup> 'ast)"
  pickle_safe_dump ::
    "string option \<times> (string \<rightharpoonup> 'ast) \<times> strings_dict \<Rightarrow> bytes"

definition lift_ext :: "string + 'a \<Rightarrow> exn + 'a" where
  "lift_ext r = (case r of Inl m \<Rightarrow> Inl (ExternalError m) | Inr x \<Rightarrow> Inr x)"

section \<open>read_ast_from_file\<close>

text \<open>The bytes \<^verbatim>\<open>b"RENPY RPC2"\<close>.\<close>

definition MAGIC :: bytes where
  "MAGIC = [0x52, 0x45, 0x4E, 0x50, 0x59, 0x20, 0x52, 0x50, 0x43, 0x32]"

text \<open>Python's \<^verbatim>\<open>b[i:j]\<close> for \<open>0 \<le> i\<close> and \<open>0 \<le> j\<close>: it clips, it never raises.\<close>

definition slice :: "'a list \<Rightarrow> nat \<Rightarrow> nat \<Rightarrow> 'a list" where
  "slice xs i j = take (j - i) (drop i xs)"

text \<open>
  \<^verbatim>\<open>struct.unpack("III", b)\<close>: three unsigned 32-bit integers in native byte order
  (little-endian on the platforms the tool runs on); \<^verbatim>\<open>struct.error\<close> unless the
  buffer has exactly 12 bytes.
\<close>

fun u32le :: "bytes \<Rightarrow> nat" where
  "u32le [] = 0"
| "u32le (b # bs) = unat b + 256 * u32le bs"

definition unpack_III :: "bytes \<Rightarrow> exn + (nat \<times> nat \<times> nat)" where
  "unpack_III b =
     (if length b \<noteq> 12 then Inl (StructError ''unpack requires a buffer of 12 bytes'')
      else Inr (u32le (take 4 b), u32le (take 4 (drop 4 b)), u32le (take 4 (drop 8 b))))"

definition SLOT_WARNING :: string where
  "SLOT_WARNING =
     ''Warning: Encountered an unexpected slot structure. It is possible the '' @ [CHR 0x0A] @
     ''    file header structure has been changed.''"

text \<open>
  The loop \<^verbatim>\<open>for expected_slot in range(1, 0xFFFFFFFF)\<close> of lines 93-108, with its
  local variables \<open>position\<close>, \<open>chunks\<close> and \<open>have_errored\<close>. The context is returned
  also when \<^verbatim>\<open>struct.unpack\<close> raises: the log was mutated in place.
\<close>

function parse_slots ::
  "bytes \<Rightarrow> nat \<Rightarrow> nat \<Rightarrow> (nat \<rightharpoonup> bytes) \<Rightarrow> bool \<Rightarrow> Context
     \<Rightarrow> (exn + (nat \<rightharpoonup> bytes)) \<times> Context" where
  "parse_slots raw_contents expected_slot position chunks have_errored ctx =
     (if expected_slot \<ge> 0xFFFFFFFF then (Inr chunks, ctx)
      else
        (case unpack_III (slice raw_contents position (position + 12)) of
           Inl e \<Rightarrow> (Inl e, ctx)
         | Inr (slot, start, len) \<Rightarrow>
             if slot = 0 then (Inr chunks, ctx)
             else if slot \<noteq> expected_slot \<and> \<not> have_errored
             then parse_slots raw_contents (expected_slot + 1) (position + 12)
                    (chunks(slot \<mapsto> slice raw_contents start (start + len)))
                    True (log ctx SLOT_WARNING)
             else parse_slots raw_contents (expected_slot + 1) (position + 12)
                    (chunks(slot \<mapsto> slice raw_contents start (start + len)))
                    have_errored ctx))"
  by pat_completeness auto
termination
  by (relation "measure (\<lambda>(r, e, p, c, h, x). 0xFFFFFFFF - e)") auto

declare parse_slots.simps [simp del]

text \<open>Line 108 on its own: what one record \<open>(slot, start, length)\<close> stores in \<open>chunks\<close>.\<close>

definition store_chunk :: "bytes \<Rightarrow> (nat \<rightharpoonup> bytes) \<Rightarrow> nat \<times> nat \<times> nat \<Rightarrow> (nat \<rightharpoonup> bytes)" where
  "store_chunk raw_contents chunks record =
     (case record of
        (slot, start, len) \<Rightarrow> chunks(slot \<mapsto> slice raw_contents start (start + len)))"

definition bytes_repr :: "bytes \<Rightarrow> string" where
  "bytes_repr b = map (\<lambda>x. char_of (unat x)) b"

definition NO_SLOT_MESSAGE :: "bytes \<Rightarrow> string" where
  "NO_SLOT_MESSAGE l1_start =
     ''Unable to find the right slot to load from the rpyc file. The file header '' @
     ''structure has been changed.'' @ ''File header:'' @ bytes_repr l1_start"

definition NOT_ZLIB_MESSAGE :: string where
  "NOT_ZLIB_MESSAGE =
     ''Did not find a zlib compressed blob where it was expected. Either the header has been '' @
     ''modified or the file structure has been changed.''"

definition VERSION_WARNING :: "string \<Rightarrow> string" where
  "VERSION_WARNING version =
     ''Warning: analysis found signs that this .rpyc file was generated by ren'' @ [CHR 0x27] @
     ''py '' @ [CHR 0x0A] @ ''    version '' @ version @ '' or below, while this unrpyc version targets ren'' @
     [CHR 0x27] @ ''py '' @ [CHR 0x0A] @
     ''    version 8. Decompilation will still be attempted, but errors or incorrect '' @
     [CHR 0x0A] @ ''    decompilation might occur. ''"

text \<open>Lines 118-136: inflate, the version diagnostic, the safe unpickling.\<close>

definition load_contents ::
  "('ast, 'tr) externals \<Rightarrow> bool \<Rightarrow> bytes \<Rightarrow> Context \<Rightarrow> (exn + 'ast) \<times> Context" where
  "load_contents ext is_rpyc_v1 contents ctx =
     (case zlib_decompress ext contents of
        None \<Rightarrow> (Inl (BadRpycException NOT_ZLIB_MESSAGE), ctx)
      | Some inflated \<Rightarrow>
          (let ctx' =
             (if is_rpyc_v1 \<or> pickle_detect_python2 ext inflated
              then log ctx (VERSION_WARNING (if is_rpyc_v1 then ''6'' else ''7''))
              else ctx)
           in (lift_ext (pickle_safe_loads ext inflated), ctx')))"

definition read_ast_from_file ::
  "('ast, 'tr) externals \<Rightarrow> bytes \<Rightarrow> Context \<Rightarrow> (exn + 'ast) \<times> Context" where
  "read_ast_from_file ext raw_contents ctx =
     (let l1_start = take 50 raw_contents in
      if take 10 raw_contents \<noteq> MAGIC then load_contents ext True raw_contents ctx
      else
        (case parse_slots raw_contents 1 10 Map.empty False ctx of
           (Inl e, ctx1) \<Rightarrow> (Inl e, ctx1)
         | (Inr chunks, ctx1) \<Rightarrow>
             (case chunks 1 of
                None \<Rightarrow> (Inl (BadRpycException (NO_SLOT_MESSAGE l1_start)), ctx1)
              | Some contents \<Rightarrow> load_contents ext False contents ctx1)))"

section \<open>decompile_rpyc\<close>

text \<open>
  Lines 144-149. When \<open>dump\<close> is off and the suffix is neither \<^verbatim>\<open>.rpyc\<close> nor
  \<^verbatim>\<open>.rpymc\<close>, no branch binds \<open>ext\<close> and line 150 raises \<open>UnboundLocalError\<close>.
\<close>

definition output_ext :: "bool \<Rightarrow> Path \<Rightarrow> exn + string" where
  "output_ext dump_mode input_filename =
     (if dump_mode then Inr ''.txt''
      else if suffix input_filename = ''.rpyc'' then Inr ''.rpy''
      else if suffix input_filename = ''.rpymc'' then Inr ''.rpym''
      else Inl (UnboundLocalError ''ext''))"

definition decompile_rpyc ::
  "('ast, 'tr) externals \<Rightarrow> world \<Rightarrow> Path \<Rightarrow> Context \<Rightarrow> bool \<Rightarrow> bool \<Rightarrow> bool \<Rightarrow> bool \<Rightarrow> bool
     \<Rightarrow> 'tr option \<Rightarrow> bool \<Rightarrow> sl_names option
     \<Rightarrow> (exn + (bytes \<times> strings_dict) option) \<times> world \<times> Context" where
  "decompile_rpyc ext w input_filename ctx overwrite try_harder_mode dump_mode comparable_mode
       no_pyexpr_mode translator init_offset_mode sl_custom =
     (case output_ext dump_mode input_filename of
        Inl e \<Rightarrow> (Inl e, w, ctx)
      | Inr ext_str \<Rightarrow>
          (let out_filename = with_suffix input_filename ext_str;
               ctx1 = log ctx (''Decompiling '' @ path_str input_filename @ '' to '' @
                               name out_filename @ ''...'')
           in
           if \<not> overwrite \<and> exists_path w out_filename
           then (Inr None, w, set_state (log ctx1 ''Target file exists already! Skipping.'') Skip)
           else
             (case open_rb w input_filename of
                (Inl e, w1) \<Rightarrow> (Inl e, w1, ctx1)
              | (Inr in_file, w1) \<Rightarrow>
                  (case (if try_harder_mode
                         then (let (r, c) = deobfuscate_read_ast ext in_file ctx1 in (lift_ext r, c))
                         else read_ast_from_file ext in_file ctx1) of
                     (Inl e, ctx2) \<Rightarrow> (Inl e, w1, ctx2)
                   | (Inr ast, ctx2) \<Rightarrow>
                       (let w2 = open_w w1 out_filename in
                        if dump_mode
                        then
                          (case astdump_pprint ext ast comparable_mode no_pyexpr_mode of
                             (written, Some m) \<Rightarrow>
                               (Inl (ExternalError m), write_file w2 out_filename written, ctx2)
                           | (written, None) \<Rightarrow>
                               (Inr None, write_file w2 out_filename written, set_state ctx2 Ok))
                        else
                          (case decompiler_pprint ext ast translator init_offset_mode sl_custom
                                  (log_contents ctx2) of
                             (written, Some m, lg) \<Rightarrow>
                               (Inl (ExternalError m), write_file w2 out_filename written,
                                ctx2\<lparr>log_contents := lg\<rparr>)
                           | (written, None, lg) \<Rightarrow>
                               (Inr None, write_file w2 out_filename written,
                                set_state (ctx2\<lparr>log_contents := lg\<rparr>) Ok)))))))"

section \<open>extract_translations\<close>

text \<open>
  A call of \<open>read_ast_from_file\<close> with the positional arguments the caller passes: the
  function has two required parameters, so a call that leaves \<open>context\<close> out raises
  \<open>TypeError\<close> before the body runs.
\<close>

definition call_read_ast_from_file ::
  "('ast, 'tr) externals \<Rightarrow> bytes \<Rightarrow> Context option \<Rightarrow> (exn + 'ast) \<times> Context option" where
  "call_read_ast_from_file ext in_file context_arg =
     (case context_arg of
        None \<Rightarrow>
          (Inl (TypeError (''read_ast_from_file() missing 1 required positional argument: '' @
                           [CHR 0x27] @ ''context'' @ [CHR 0x27])), None)
      | Some c \<Rightarrow> (let (r, c') = read_ast_from_file ext in_file c in (r, Some c')))"

text \<open>Lines 176-185. Line 180 passes \<open>in_file\<close> only.\<close>

definition extract_translations ::
  "('ast, 'tr) externals \<Rightarrow> world \<Rightarrow> Path \<Rightarrow> string option \<Rightarrow> Context
     \<Rightarrow> (exn + (bytes \<times> strings_dict) option) \<times> world \<times> Context" where
  "extract_translations ext w input_filename lang ctx =
     (let ctx1 = log ctx (''Extracting translations from '' @ path_str input_filename @ ''...'') in
      case open_rb w input_filename of
        (Inl e, w1) \<Rightarrow> (Inl e, w1, ctx1)
      | (Inr in_file, w1) \<Rightarrow>
          (case call_read_ast_from_file ext in_file None of
             (Inl e, _) \<Rightarrow> (Inl e, w1, ctx1)
           | (Inr ast, _) \<Rightarrow>
               (case lift_ext (translate_dialogue ext lang ast) of
                  Inl e \<Rightarrow> (Inl e, w1, ctx1)
                | Inr bundle \<Rightarrow> (Inr (Some bundle), w1, ctx1))))"

section \<open>worker\<close>

text \<open>
  The parsed command line (\<open>file_arg\<close> is \<^verbatim>\<open>args.file\<close>). \<open>sl_custom_names\<close> is what
  argparse stores;
  \<open>sl_custom_names_parsed\<close> is the same attribute after line 401 reassigns it, and
  \<open>translations_blob\<close> the attribute \<^verbatim>\<open>args.translations\<close> line 397 adds.
\<close>

record args =
  file_arg :: "string list"
  clobber :: bool
  try_harder :: bool
  dump :: bool
  processes :: int
  translation_file :: "Path option"
  write_translation_file :: "Path option"
  language :: "string option"
  comparable :: bool
  no_pyexpr :: bool
  init_offset :: bool
  sl_custom_names :: "string list option"
  sl_custom_names_parsed :: "sl_names option"
  translations_blob :: "bytes option"

fun exn_class :: "exn \<Rightarrow> string" where
  "exn_class (BadRpycException m) = ''BadRpycException''"
| "exn_class (StructError m) = ''struct.error''"
| "exn_class (TypeError m) = ''TypeError''"
| "exn_class (FileNotFoundError m) = ''FileNotFoundError''"
| "exn_class (UnboundLocalError m) = ''UnboundLocalError''"
| "exn_class (AttributeError m) = ''AttributeError''"
| "exn_class (KeyError m) = ''KeyError''"
| "exn_class (PlainException m) = ''Exception''"
| "exn_class (ExternalError m) = ''Exception''"

fun exn_message :: "exn \<Rightarrow> string" where
  "exn_message (BadRpycException m) = m"
| "exn_message (StructError m) = m"
| "exn_message (TypeError m) = m"
| "exn_message (FileNotFoundError m) = m"
| "exn_message (UnboundLocalError m) = m"
| "exn_message (AttributeError m) = m"
| "exn_message (KeyError m) = m"
| "exn_message (PlainException m) = m"
| "exn_message (ExternalError m) = m"

text \<open>\<^verbatim>\<open>traceback.format_exc()\<close>, without the stack frames: the last line of the trace.\<close>

definition format_exc :: "exn \<Rightarrow> string" where
  "format_exc e =
     ''Traceback (most recent call last):'' @ [CHR 0x0A] @ exn_class e @ '': '' @ exn_message e"

definition run_task ::
  "('ast, 'tr) externals \<Rightarrow> world \<Rightarrow> args \<Rightarrow> Path \<Rightarrow> Context
     \<Rightarrow> (exn + (bytes \<times> strings_dict) option) \<times> world \<times> Context" where
  "run_task ext w a filename ctx =
     (if write_translation_file a \<noteq> None
      then extract_translations ext w filename (language a) ctx
      else
        (case (if translation_file a \<noteq> None
               then (case translations_blob a of
                       None \<Rightarrow> Inl (AttributeError ''translations'')
                     | Some b \<Rightarrow>
                         (case lift_ext (load_translator ext b) of
                            Inl e \<Rightarrow> Inl e
                          | Inr t \<Rightarrow> Inr (Some t)))
               else Inr None) of
           Inl e \<Rightarrow> (Inl e, w, ctx)
         | Inr translator \<Rightarrow>
             decompile_rpyc ext w filename ctx (clobber a) (try_harder a) (dump a) (comparable a)
               (no_pyexpr a) translator (init_offset a) (sl_custom_names_parsed a)))"

text \<open>
  Lines 188-219. \<open>run_task\<close> is the body of the \<^verbatim>\<open>try\<close>; the two handlers follow.
  The world is returned next to the context.
\<close>

definition worker :: "('ast, 'tr) externals \<Rightarrow> world \<Rightarrow> args \<times> Path \<Rightarrow> world \<times> Context" where
  "worker ext w arg_tup =
     (let (a, filename) = arg_tup;
          ctx = Context_init
      in
      case run_task ext w a filename ctx of
        (Inr result, w', ctx') \<Rightarrow> (w', set_result ctx' result)
      | (Inl (BadRpycException m), w', ctx') \<Rightarrow>
          (w', log (log (set_state ctx' Spoofed)
                      (''Error while trying to read the header of '' @ path_str filename @ '':''))
                 (format_exc (BadRpycException m)))
      | (Inl e, w', ctx') \<Rightarrow>
          (w', log (log (set_state ctx' Fail)
                      (''Error while decompiling '' @ path_str filename @ '':''))
                 (format_exc e)))"

section \<open>parse_sl_custom_names\<close>

text \<open>Python's \<^verbatim>\<open>str.split(sep)\<close> with a one-character separator.\<close>

fun split_on :: "char \<Rightarrow> string \<Rightarrow> string list" where
  "split_on sep [] = [[]]"
| "split_on sep (c # cs) =
     (if c = sep then [] # split_on sep cs
      else (case split_on sep cs of
              [] \<Rightarrow> [[c]]
            | piece # pieces \<Rightarrow> (c # piece) # pieces))"

definition BAD_FORMAT :: "string \<Rightarrow> exn" where
  "BAD_FORMAT argument =
     PlainException (''Bad format in custom sl displayable registration: '' @ [CHR 0x22] @
                     argument @ [CHR 0x22])"

definition BAD_COUNT :: "string \<Rightarrow> exn" where
  "BAD_COUNT argument =
     PlainException (''Bad child node count in custom sl displayable registration: '' @
                     [CHR 0x22] @ argument @ [CHR 0x22])"

text \<open>The body of the loop of lines 226-252 for one argument: the entry it stores.\<close>

definition parse_sl_custom_name :: "string \<Rightarrow> exn + (string \<times> string \<times> child_count)" where
  "parse_sl_custom_name argument =
     (case split_on CHR ''='' argument of
        [classname, nm] \<Rightarrow>
          (case split_on CHR ''-'' nm of
             [n] \<Rightarrow> Inr (classname, nm, Many)
           | [n, amount] \<Rightarrow>
               (if amount = ''0'' then Inr (classname, n, Zero)
                else if amount = ''1'' then Inr (classname, n, One)
                else if amount = ''many'' then Inr (classname, n, Many)
                else Inl (BAD_COUNT argument))
           | _ \<Rightarrow> Inl (BAD_FORMAT argument))
      | _ \<Rightarrow> Inl (BAD_FORMAT argument))"

fun parse_sl_custom_names_loop :: "sl_names \<Rightarrow> string list \<Rightarrow> exn + sl_names" where
  "parse_sl_custom_names_loop parsed_arguments [] = Inr parsed_arguments"
| "parse_sl_custom_names_loop parsed_arguments (argument # rest) =
     (case parse_sl_custom_name argument of
        Inl e \<Rightarrow> Inl e
      | Inr (classname, entry) \<Rightarrow>
          parse_sl_custom_names_loop (parsed_arguments(classname \<mapsto> entry)) rest)"

definition parse_sl_custom_names :: "string list \<Rightarrow> exn + sl_names" where
  "parse_sl_custom_names unparsed_arguments =
     parse_sl_custom_names_loop Map.empty unparsed_arguments"

section \<open>main\<close>

text \<open>
  Truth values of the optional arguments: a \<open>Path\<close> is always true, \<open>None\<close> and the
  empty string are false.
\<close>

definition truthy_path :: "Path option \<Rightarrow> bool" where
  "truthy_path p = (p \<noteq> None)"

definition truthy_str :: "string option \<Rightarrow> bool" where
  "truthy_str s = (case s of None \<Rightarrow> False | Some t \<Rightarrow> t \<noteq> [])"

text \<open>
  Lines 377-393: the three checks that end in \<^verbatim>\<open>ap.error\<close>, which prints the message
  and exits the process. The result is the message of the first check that fires.
\<close>

definition preflight :: "world \<Rightarrow> args \<Rightarrow> string option" where
  "preflight w a =
     (if (no_pyexpr a \<or> comparable a) \<and> \<not> dump a
      then Some (''Arguments '' @ [CHR 0x27] @ ''comparable'' @ [CHR 0x27] @ '' and '' @
                 [CHR 0x27] @ ''no_pyexpr'' @ [CHR 0x27] @ '' are not usable without '' @
                 [CHR 0x27] @ ''dump'' @ [CHR 0x27] @ ''.'')
      else if (try_harder a \<or> dump a)
              \<and> (truthy_path (write_translation_file a) \<or> truthy_path (translation_file a)
                 \<or> truthy_str (language a))
      then Some (''Arguments '' @ [CHR 0x27] @ ''try_harder'' @ [CHR 0x27] @ '' and/or '' @
                 [CHR 0x27] @ ''dump'' @ [CHR 0x27] @
                 '' are not usable with the translation feature.'')
      else if (case write_translation_file a of
                 None \<Rightarrow> False
               | Some out \<Rightarrow> \<not> clobber a \<and> exists_path w out)
      then Some ''Output translation file already exists. Pass --clobber to overwrite.''
      else None)"

text \<open>
  \<^verbatim>\<open>state_count\<close>: the dictionary with the keys \<^verbatim>\<open>'total'\<close> and the four states.
\<close>

record state_count =
  total :: nat
  per_state :: "State \<Rightarrow> nat"

definition state_count_init :: state_count where
  "state_count_init = \<lparr>total = 0, per_state = (\<lambda>s. 0)\<rparr>"

text \<open>
  Lines 466-467. A context whose state was never set has \<open>state = None\<close>, which is no
  key of the dictionary.
\<close>

fun count_states :: "state_count \<Rightarrow> Context list \<Rightarrow> exn + state_count" where
  "count_states sc [] = Inr sc"
| "count_states sc (res_inst # rest) =
     (case state res_inst of
        None \<Rightarrow> Inl (KeyError ''None'')
      | Some s \<Rightarrow> count_states (sc\<lparr>per_state := (per_state sc)(s := per_state sc s + 1)\<rparr>) rest)"

text \<open>
  Line 450, \<^verbatim>\<open>map(worker, worklist)\<close> consumed by the loop: \<open>worker\<close> on every element
  in turn, in the calling thread, the contexts collected in the order of the worklist.
\<close>

fun map_worker ::
  "('ast, 'tr) externals \<Rightarrow> world \<Rightarrow> (args \<times> Path) list \<Rightarrow> world \<times> Context list" where
  "map_worker ext w [] = (w, [])"
| "map_worker ext w (task # rest) =
     (let (w1, result) = worker ext w task;
          (w2, results) = map_worker ext w1 rest
      in (w2, result # results))"

text \<open>
  Lines 446-447, \<^verbatim>\<open>pool.imap(worker, worklist, 1)\<close> on a pool of \<open>n\<close> processes: it
  yields what \<open>worker\<close> returns for every element, in submission order. Each worker
  writes its own output file only, so the pool's effect on the files is taken to be
  that of the run in submission order; the interleaving of the processes is not
  modelled.
\<close>

definition pool_imap ::
  "('ast, 'tr) externals \<Rightarrow> int \<Rightarrow> world \<Rightarrow> (args \<times> Path) list \<Rightarrow> world \<times> Context list" where
  "pool_imap ext n w worklist = map_worker ext w worklist"

text \<open>
  Lines 444-451: the condition of line 445 chooses between the pool and the plain
  loop. The result records the branch that ran, next to the world and the contexts.
\<close>

datatype dispatch = Pool int | Sequential

definition dispatch_tasks ::
  "('ast, 'tr) externals \<Rightarrow> world \<Rightarrow> args \<Rightarrow> (args \<times> Path) list
     \<Rightarrow> dispatch \<times> world \<times> Context list" where
  "dispatch_tasks ext w a worklist =
     (if processes a > 1 \<and> length worklist > 5
      then (Pool (processes a), pool_imap ext (processes a) w worklist)
      else (Sequential, map_worker ext w worklist))"

text \<open>Lines 455-461: the loop that merges the per-file results.\<close>

fun merge_translations ::
  "('ast, 'tr) externals \<Rightarrow> (string \<rightharpoonup> 'ast) \<Rightarrow> strings_dict \<Rightarrow> Context list
     \<Rightarrow> exn + ((string \<rightharpoonup> 'ast) \<times> strings_dict)" where
  "merge_translations ext translated_dialogue translated_strings [] =
     Inr (translated_dialogue, translated_strings)"
| "merge_translations ext translated_dialogue translated_strings (result # rest) =
     (case result_value result of
        None \<Rightarrow> merge_translations ext translated_dialogue translated_strings rest
      | Some (dumped, strs) \<Rightarrow>
          (case lift_ext (pickle_loads ext dumped) of
             Inl e \<Rightarrow> Inl e
           | Inr dialogue \<Rightarrow>
               merge_translations ext (translated_dialogue ++ dialogue)
                 (translated_strings ++ strs) rest))"

text \<open>
  How a run of \<open>main\<close> ends: \<open>ArgumentError\<close> is \<^verbatim>\<open>ap.error\<close> (the process exits),
  \<open>Uncaught\<close> an exception that leaves \<open>main\<close>, \<open>Returned\<close> one of the two early
  \<^verbatim>\<open>return\<close>s, \<open>Finished\<close> the end of the function with the contexts of all files, the
  way they were dispatched and the counters of the report.
\<close>

datatype outcome =
    ArgumentError string
  | Uncaught exn
  | Returned string
  | Finished "Context list" dispatch state_count

definition st_size :: "world \<Rightarrow> Path \<Rightarrow> nat" where
  "st_size w p = (case files w p of None \<Rightarrow> 0 | Some content \<Rightarrow> length content)"

text \<open>
  Lines 434-494, from the worklist on. \<open>worklist\<close> is what lines 426-430 collected (glob
  expansion and directory traversal, which open no file). The sort is Python's stable
  sort with \<^verbatim>\<open>reverse=True\<close>; \<^verbatim>\<open>stat()\<close> raises for a file that is gone. The
  printed report is a function of the counters and is left out.
\<close>

definition process_worklist ::
  "('ast, 'tr) externals \<Rightarrow> world \<Rightarrow> args \<Rightarrow> Path list \<Rightarrow> outcome \<times> world" where
  "process_worklist ext w a worklist =
     (if worklist = [] then (Returned ''Found no script files to decompile.'', w)
      else
        (let sc = state_count_init\<lparr>total := length worklist\<rparr> in
         case filter (\<lambda>p. \<not> exists_path w p) worklist of
           missing # _ \<Rightarrow> (Uncaught (FileNotFoundError (path_str missing)), w)
         | [] \<Rightarrow>
             (let sorted_list = sort_key (\<lambda>p. - int (st_size w p)) worklist;
                  tasks = map (\<lambda>x. (a, x)) sorted_list;
                  (how, w1, results) = dispatch_tasks ext w a tasks
              in
              case (case write_translation_file a of
                      None \<Rightarrow> Inr w1
                    | Some out \<Rightarrow>
                        (case merge_translations ext Map.empty Map.empty results of
                           Inl e \<Rightarrow> Inl e
                         | Inr (translated_dialogue, translated_strings) \<Rightarrow>
                             Inr (write_file (open_w w1 out) out
                                    (pickle_safe_dump ext
                                       (language a, translated_dialogue, translated_strings))))) of
                Inl e \<Rightarrow> (Uncaught e, w1)
              | Inr w2 \<Rightarrow>
                  (case count_states sc results of
                     Inl e \<Rightarrow> (Uncaught e, w2)
                   | Inr sc' \<Rightarrow> (Finished results how sc', w2)))))"

text \<open>
  \<open>main\<close> after \<^verbatim>\<open>ap.parse_args()\<close>. \<open>expand\<close> stands for lines 406-430: the files the
  path arguments expand to.
\<close>

definition main ::
  "('ast, 'tr) externals \<Rightarrow> (world \<Rightarrow> string list \<Rightarrow> Path list) \<Rightarrow> world \<Rightarrow> args
     \<Rightarrow> outcome \<times> world" where
  "main ext expand w a =
     (case preflight w a of
        Some message \<Rightarrow> (ArgumentError message, w)
      | None \<Rightarrow>
          (case (case translation_file a of
                   None \<Rightarrow> (Inr a, w)
                 | Some tf \<Rightarrow>
                     (case open_rb w tf of
                        (Inl e, w1) \<Rightarrow> (Inl e, w1)
                      | (Inr content, w1) \<Rightarrow> (Inr (a\<lparr>translations_blob := Some content\<rparr>), w1))) of
             (Inl e, w1) \<Rightarrow> (Uncaught e, w1)
           | (Inr a1, w1) \<Rightarrow>
               (case (case sl_custom_names a1 of
                        None \<Rightarrow> Inr a1
                      | Some unparsed \<Rightarrow>
                          (case parse_sl_custom_names unparsed of
                             Inl e \<Rightarrow> Inl e
                           | Inr parsed \<Rightarrow> Inr (a1\<lparr>sl_custom_names_parsed := Some parsed\<rparr>))) of
                  Inl e \<Rightarrow> (Returned (exn_message e), w1)
                | Inr a2 \<Rightarrow> process_worklist ext w1 a2 (expand w1 (file_arg a2)))))"

section \<open>Concrete files and collaborators\<close>

text \<open>
  A small instance of the collaborators, to run the definitions on concrete files: the
  inflater strips a leading byte \<open>0x78\<close>, the unpickler a leading byte \<open>0x80\<close>, and an
  AST is the remaining bytes.
\<close>

definition demo_ext :: "(bytes, unit) externals" where
  "demo_ext = \<lparr>
     zlib_decompress =
       (\<lambda>b. case b of [] \<Rightarrow> None | x # xs \<Rightarrow> if x = 0x78 then Some xs else None),
     pickle_detect_python2 = (\<lambda>b. False),
     pickle_safe_loads =
       (\<lambda>b. case b of
              [] \<Rightarrow> Inl ''pickle data was truncated''
            | x # xs \<Rightarrow> if x = 0x80 then Inr xs else Inl ''invalid load key''),
     deobfuscate_read_ast = (\<lambda>b c. (Inl ''All strategies failed'', c)),
     astdump_pprint = (\<lambda>ast cmp nop. (ast, None)),
     decompiler_pprint = (\<lambda>ast tr io sl lg. (ast, None, lg)),
     load_translator = (\<lambda>b. Inr ()),
     translate_dialogue = (\<lambda>lang ast. Inr (ast, Map.empty)),
     pickle_loads =
       (\<lambda>b. case b of
              [] \<Rightarrow> Inl ''Ran out of input''
            | x # xs \<Rightarrow> Inr (if x = 1 then [''k1'' \<mapsto> xs] else [''k2'' \<mapsto> xs])),
     pickle_safe_dump = (\<lambda>(lang, d, s). [])\<rparr>"

definition demo_args :: args where
  "demo_args = \<lparr>file_arg = [''game''], clobber = False, try_harder = False, dump = False,
     processes = 1, translation_file = None, write_translation_file = None, language = None,
     comparable = False, no_pyexpr = False, init_offset = True, sl_custom_names = None,
     sl_custom_names_parsed = None, translations_blob = None\<rparr>"

definition script_rpyc :: Path where
  "script_rpyc = \<lparr>parent = ''game'', stem = ''script'', suffix = ''.rpyc''\<rparr>"

definition script_rpy :: Path where
  "script_rpy = \<lparr>parent = ''game'', stem = ''script'', suffix = ''.rpy''\<rparr>"

definition world_of :: "(Path \<times> bytes) list \<Rightarrow> world" where
  "world_of fs = \<lparr>files = map_of fs, opened = []\<rparr>"

text \<open>The magic marker followed by eight bytes: the file ends inside the first slot record.\<close>

definition truncated_archive :: bytes where
  "truncated_archive = MAGIC @ [1, 0, 0, 0, 46, 0, 0, 0]"


text \<open>Slots 1 (offset 46, length 3) and 2 (offset 49, length 2), then the terminator.\<close>

definition two_slot_archive :: bytes where
  "two_slot_archive =
     MAGIC @ [1, 0, 0, 0, 46, 0, 0, 0, 3, 0, 0, 0] @ [2, 0, 0, 0, 49, 0, 0, 0, 2, 0, 0, 0] @
     [0, 0, 0, 0, 0, 0, 0, 0, 0, 0, 0, 0] @ [0x78, 0x80, 0x2A] @ [0xFF, 0xFF]"

text \<open>Slots 3 (offset 46, length 1) and 1 (offset 47, length 3): both ids are unexpected.\<close>

definition unordered_archive :: bytes where
  "unordered_archive =
     MAGIC @ [3, 0, 0, 0, 46, 0, 0, 0, 1, 0, 0, 0] @ [1, 0, 0, 0, 47, 0, 0, 0, 3, 0, 0, 0] @
     [0, 0, 0, 0, 0, 0, 0, 0, 0, 0, 0, 0] @ [0xFF] @ [0x78, 0x80, 0x2A]"



section \<open>Evaluation lemmas\<close>

lemmas demo_defs = demo_ext_def demo_args_def script_rpyc_def script_rpy_def world_of_def

lemmas pipeline_defs = worker_def run_task_def decompile_rpyc_def output_ext_def with_suffix_def
  exists_path_def open_rb_def open_w_def write_file_def read_ast_from_file_def
  load_contents_def lift_ext_def MAGIC_def unpack_III_def slice_def log_def set_state_def
  set_result_def Context_init_def name_def path_str_def

section \<open>The skip check of decompile_rpyc\<close>

text \<open>
  C5. When the output path can be derived, the derived output file exists and
  \<open>overwrite\<close> is false, \<open>decompile_rpyc\<close> logs, sets state \<open>Skip\<close> and returns
  \<open>None\<close> with the world it was given: no file has been opened (the list \<open>opened\<close> is
  the same, so the input was not opened and nothing was decoded) and every file,
  the existing output among them, has the content it had.
\<close>

theorem decompile_rpyc_skips_existing_output:
  assumes "output_ext dump_mode input_filename = Inr e"
    and "exists_path w (with_suffix input_filename e)"
    and "\<not> overwrite"
  shows "decompile_rpyc ext w input_filename ctx overwrite try_harder_mode dump_mode comparable_mode
           no_pyexpr_mode translator init_offset_mode sl_custom =
         (Inr None, w,
          set_state (log (log ctx (''Decompiling '' @ path_str input_filename @ '' to '' @
                                  name (with_suffix input_filename e) @ ''...''))
                       ''Target file exists already! Skipping.'') Skip)"
  using assms by (simp add: decompile_rpyc_def)

theorem decompile_rpyc_skips_existing_output_witness:
  "output_ext False script_rpyc = Inr ''.rpy'' \<and>
   exists_path (world_of [(script_rpyc, two_slot_archive), (script_rpy, [0x41])])
     (with_suffix script_rpyc ''.rpy'') \<and>
   (let w = world_of [(script_rpyc, two_slot_archive), (script_rpy, [0x41])];
        r = decompile_rpyc demo_ext w script_rpyc Context_init False False False False False
              None True None
    in fst r = Inr None \<and> fst (snd r) = w \<and> state (snd (snd r)) = Some Skip
       \<and> files (fst (snd r)) script_rpy = Some [0x41] \<and> opened (fst (snd r)) = [])"
proof -
  have a: "output_ext False script_rpyc = Inr ''.rpy''"
    by (simp add: output_ext_def script_rpyc_def)
  have b: "exists_path (world_of [(script_rpyc, two_slot_archive), (script_rpy, [0x41])])
     (with_suffix script_rpyc ''.rpy'')"
    by (simp add: exists_path_def world_of_def with_suffix_def script_rpyc_def script_rpy_def)
  show ?thesis
    using a b decompile_rpyc_skips_existing_output
      [OF a b, of False demo_ext Context_init False False False None True None]
    by (simp add: Let_def set_state_def world_of_def script_rpy_def script_rpyc_def)
qed

section \<open>A truncated slot table\<close>

text \<open>
  C4. An archive that ends inside its first slot record: \<^verbatim>\<open>struct.unpack\<close> raises
  \<^verbatim>\<open>struct.error\<close>, which is not a \<open>BadRpycException\<close>, so the worker records state
  \<open>Fail\<close> and not \<open>Spoofed\<close>.
\<close>

theorem truncated_slot_table_is_fail:
  "fst (read_ast_from_file demo_ext truncated_archive Context_init) =
     Inl (StructError ''unpack requires a buffer of 12 bytes'') \<and>
   state (snd (worker demo_ext (world_of [(script_rpyc, truncated_archive)])
                 (demo_args, script_rpyc))) = Some Fail"
  by (simp add: demo_defs pipeline_defs truncated_archive_def parse_slots.simps)

section \<open>The slot table loop, step by step\<close>

lemma parse_slots_exhausted:
  "0xFFFFFFFF \<le> e \<Longrightarrow> parse_slots raw e p ch h c = (Inr ch, c)"
  by (subst parse_slots.simps) simp

lemma parse_slots_unpack_error:
  "e < 0xFFFFFFFF \<Longrightarrow> unpack_III (slice raw p (p + 12)) = Inl x \<Longrightarrow>
   parse_slots raw e p ch h c = (Inl x, c)"
  by (subst parse_slots.simps) simp

lemma parse_slots_terminator:
  "e < 0xFFFFFFFF \<Longrightarrow> unpack_III (slice raw p (p + 12)) = Inr (0, a, b) \<Longrightarrow>
   parse_slots raw e p ch h c = (Inr ch, c)"
  by (subst parse_slots.simps) simp

lemma parse_slots_step:
  "e < 0xFFFFFFFF \<Longrightarrow> unpack_III (slice raw p (p + 12)) = Inr (s, a, b) \<Longrightarrow> s \<noteq> 0 \<Longrightarrow>
   parse_slots raw e p ch h c =
     parse_slots raw (e + 1) (p + 12) (ch(s \<mapsto> slice raw a (a + b))) (h \<or> s \<noteq> e)
       (if s \<noteq> e \<and> \<not> h then log c SLOT_WARNING else c)"
  by (subst parse_slots.simps) auto




section \<open>Failures of the unpickler\<close>







section \<open>The handlers of worker\<close>

lemma length_map_worker: "length (snd (map_worker ext w tasks)) = length tasks"
proof (induction tasks arbitrary: w)
  case Nil
  then show ?case by simp
next
  case (Cons task rest)
  obtain w1 c where wk: "worker ext w task = (w1, c)"
    by (cases "worker ext w task") auto
  obtain w2 cs where mw: "map_worker ext w1 rest = (w2, cs)"
    by (cases "map_worker ext w1 rest") auto
  from Cons.IH [of w1] mw have "length cs = length rest" by simp
  with wk mw show ?case by simp
qed

text \<open>
  C3. Whatever exception \<open>e\<close> the body of the \<^verbatim>\<open>try\<close> raises (every exception of the
  pipeline derives from \<open>Exception\<close>, which the second handler catches), \<open>worker\<close> returns
  a context: its state is \<open>Spoofed\<close> for a \<open>BadRpycException\<close> and \<open>Fail\<close> for
  every other exception, and its log is the log the body left, followed by the line
  naming the file and by the trace of \<open>e\<close>. A run over a list of files that starts
  with this file still returns one context for every file of the list.
\<close>

theorem worker_contains_every_exception:
  assumes "run_task ext w a filename Context_init = (Inl e, w', ctx')"
  shows "(\<exists>c. worker ext w (a, filename) = (w', c) \<and>
            state c = Some (if (\<exists>m. e = BadRpycException m) then Spoofed else Fail) \<and>
            log_contents c = log_contents ctx' @
              [(if (\<exists>m. e = BadRpycException m)
                then ''Error while trying to read the header of ''
                else ''Error while decompiling '') @ path_str filename @ '':'',
               format_exc e]) \<and>
         length (snd (map_worker ext w ((a, filename) # tasks))) = Suc (length tasks)"
proof -
  have "\<exists>c. worker ext w (a, filename) = (w', c) \<and>
            state c = Some (if (\<exists>m. e = BadRpycException m) then Spoofed else Fail) \<and>
            log_contents c = log_contents ctx' @
              [(if (\<exists>m. e = BadRpycException m)
                then ''Error while trying to read the header of ''
                else ''Error while decompiling '') @ path_str filename @ '':'',
               format_exc e]"
    using assms by (cases e) (simp_all add: worker_def log_def set_state_def)
  then show ?thesis
    using length_map_worker [of ext w "(a, filename) # tasks"]
    by (simp del: map_worker.simps)
qed

text \<open>
  The truncated archive raises \<^verbatim>\<open>struct.error\<close> inside the body; the worker returns.
\<close>

theorem worker_contains_every_exception_witness:
  "state (snd (worker demo_ext (world_of [(script_rpyc, truncated_archive)])
                 (demo_args, script_rpyc))) = Some Fail \<and>
   last (log_contents (snd (worker demo_ext (world_of [(script_rpyc, truncated_archive)])
                 (demo_args, script_rpyc)))) =
     format_exc (StructError ''unpack requires a buffer of 12 bytes'') \<and>
   length (snd (map_worker demo_ext (world_of [(script_rpyc, truncated_archive)])
                  [(demo_args, script_rpyc), (demo_args, script_rpy)])) = 2"
proof -
  let ?w = "world_of [(script_rpyc, truncated_archive)]"
  obtain x w' c' where rt: "run_task demo_ext ?w demo_args script_rpyc Context_init = (x, w', c')"
    by (cases "run_task demo_ext ?w demo_args script_rpyc Context_init") auto
  have "fst (run_task demo_ext ?w demo_args script_rpyc Context_init) =
          Inl (StructError ''unpack requires a buffer of 12 bytes'')"
    by (simp add: demo_defs pipeline_defs truncated_archive_def parse_slots.simps)
  with rt have rt': "run_task demo_ext ?w demo_args script_rpyc Context_init =
          (Inl (StructError ''unpack requires a buffer of 12 bytes''), w', c')"
    by simp
  show ?thesis
    using worker_contains_every_exception [OF rt', of "[(demo_args, script_rpy)]"]
    by auto
qed

section \<open>Translation extraction\<close>








section \<open>The slot table walked to its terminator\<close>

lemma parse_slots_log:
  "\<exists>ws. log_contents (snd (parse_slots raw e p ch h c)) = log_contents c @ ws \<and>
        (ws = [] \<or> (\<not> h \<and> ws = [SLOT_WARNING]))"
proof (induction n \<equiv> "0xFFFFFFFF - e" arbitrary: e p ch h c)
  case 0
  then have "0xFFFFFFFF \<le> e" by simp
  then show ?case by (simp add: parse_slots_exhausted)
next
  case (Suc n)
  then have lt: "e < 0xFFFFFFFF" and n: "n = 0xFFFFFFFF - (e + 1)" by simp_all
  show ?case
  proof (cases "unpack_III (slice raw p (p + 12))")
    case (Inl y)
    with lt show ?thesis by (simp add: parse_slots_unpack_error)
  next
    case (Inr r)
    obtain s a b where r: "r = (s, a, b)" by (cases r) auto
    show ?thesis
    proof (cases "s = 0")
      case True
      with lt Inr r show ?thesis by (simp add: parse_slots_terminator)
    next
      case False
      let ?ch = "ch(s \<mapsto> slice raw a (a + b))"
      have st: "parse_slots raw e p ch h c =
          parse_slots raw (e + 1) (p + 12) ?ch (h \<or> s \<noteq> e)
            (if s \<noteq> e \<and> \<not> h then log c SLOT_WARNING else c)"
        using parse_slots_step [OF lt _ False, of raw p a b] Inr r by simp
      show ?thesis
      proof (cases "s \<noteq> e \<and> \<not> h")
        case True
        have st': "parse_slots raw e p ch h c =
            parse_slots raw (e + 1) (p + 12) ?ch True (log c SLOT_WARNING)"
          using st True by simp
        from Suc.hyps(1) [OF n, of "p + 12" ?ch True "log c SLOT_WARNING"]
        have ih: "log_contents (snd (parse_slots raw (e + 1) (p + 12) ?ch True (log c SLOT_WARNING))) =
              log_contents c @ [SLOT_WARNING]"
          by (auto simp: log_def)
        show ?thesis
          unfolding st' ih using True by simp
      next
        case F: False
        from Suc.hyps(1) [OF n, of "p + 12" ?ch "h \<or> s \<noteq> e" c] F
        show ?thesis by (auto simp: st)
      qed
    qed
  qed
qed

lemma version_warning_not_slot_warning: "VERSION_WARNING v \<noteq> SLOT_WARNING"
  by (simp add: VERSION_WARNING_def SLOT_WARNING_def)

lemma load_contents_log:
  "count_list (log_contents (snd (load_contents ext v1 contents c))) SLOT_WARNING =
   count_list (log_contents c) SLOT_WARNING"
  by (simp add: load_contents_def Let_def log_def version_warning_not_slot_warning
      split: option.splits)

lemma slot_warning_at_most_once:
  "count_list (log_contents (snd (read_ast_from_file ext raw c))) SLOT_WARNING \<le>
   count_list (log_contents c) SLOT_WARNING + 1"
proof (cases "take 10 raw = MAGIC")
  case False
  then show ?thesis by (simp add: read_ast_from_file_def load_contents_log)
next
  case True
  obtain r1 c1 where p1: "parse_slots raw 1 10 Map.empty False c = (r1, c1)"
    by (cases "parse_slots raw 1 10 Map.empty False c") auto
  from parse_slots_log [of raw 1 10 Map.empty False c] p1
  have c1: "count_list (log_contents c1) SLOT_WARNING \<le> count_list (log_contents c) SLOT_WARNING + 1"
    by auto
  show ?thesis
  proof (cases r1)
    case (Inl x)
    with p1 True c1 show ?thesis by (simp add: read_ast_from_file_def)
  next
    case (Inr chunks)
    with p1 True c1 show ?thesis
      by (cases "chunks 1") (simp_all add: read_ast_from_file_def load_contents_log)
  qed
qed

lemma parse_slots_walk:
  assumes "\<forall>i < length recs.
             unpack_III (slice raw (p + 12 * i) (p + 12 * i + 12)) = Inr (recs ! i) \<and>
             fst (recs ! i) \<noteq> 0"
    and "unpack_III (slice raw (p + 12 * length recs) (p + 12 * length recs + 12)) = Inr (0, x, y)"
    and "e + length recs < 0xFFFFFFFF"
  shows "parse_slots raw e p ch h c =
           (Inr (foldl (store_chunk raw) ch recs),
            if \<not> h \<and> map fst recs \<noteq> [e ..< e + length recs] then log c SLOT_WARNING else c)"
  using assms
proof (induction recs arbitrary: e p ch h c)
  case Nil
  then show ?case by (simp add: parse_slots_terminator)
next
  case (Cons r rs)
  obtain s a b where r: "r = (s, a, b)" by (cases r) auto
  from Cons.prems(1) have "unpack_III (slice raw (p + 12 * 0) (p + 12 * 0 + 12)) = Inr ((r # rs) ! 0) \<and>
             fst ((r # rs) ! 0) \<noteq> 0"
    by blast
  with r have u: "unpack_III (slice raw p (p + 12)) = Inr (s, a, b)" and nz: "s \<noteq> 0"
    by simp_all
  from Cons.prems(3) have lt: "e < 0xFFFFFFFF" by simp
  let ?ch = "ch(s \<mapsto> slice raw a (a + b))"
  have st: "parse_slots raw e p ch h c =
          parse_slots raw (e + 1) (p + 12) ?ch (h \<or> s \<noteq> e)
            (if s \<noteq> e \<and> \<not> h then log c SLOT_WARNING else c)"
    using parse_slots_step [OF lt u nz] by simp
  have p1: "\<forall>i < length rs.
             unpack_III (slice raw (p + 12 + 12 * i) (p + 12 + 12 * i + 12)) = Inr (rs ! i) \<and>
             fst (rs ! i) \<noteq> 0"
  proof (intro allI impI)
    fix i assume "i < length rs"
    then have "Suc i < length (r # rs)" by simp
    with Cons.prems(1) have A: "unpack_III (slice raw (p + 12 * Suc i) (p + 12 * Suc i + 12)) =
        Inr ((r # rs) ! Suc i) \<and> fst ((r # rs) ! Suc i) \<noteq> 0"
      by blast
    have eq: "p + 12 * Suc i = p + 12 + 12 * i" by simp
    from A show "unpack_III (slice raw (p + 12 + 12 * i) (p + 12 + 12 * i + 12)) = Inr (rs ! i) \<and>
             fst (rs ! i) \<noteq> 0"
      by (simp only: eq nth_Cons_Suc) simp
  qed
  have eq2: "p + 12 * length (r # rs) = p + 12 + 12 * length rs" by simp
  have p2: "unpack_III (slice raw (p + 12 + 12 * length rs) (p + 12 + 12 * length rs + 12)) =
      Inr (0, x, y)"
    using Cons.prems(2) by (simp only: eq2)
  have p3: "e + 1 + length rs < 0xFFFFFFFF" using Cons.prems(3) by simp
  have seq: "[e ..< e + length (r # rs)] = e # [e + 1 ..< e + 1 + length rs]"
  proof -
    have "e < e + length (r # rs)" by simp
    then have "[e ..< e + length (r # rs)] = e # [Suc e ..< e + length (r # rs)]"
      by (rule upt_conv_Cons)
    then show ?thesis by simp
  qed
  have sc: "store_chunk raw ch r = ?ch"
    using r by (simp add: store_chunk_def)
  show ?case
    unfolding st Cons.IH [OF p1 p2 p3] seq
    using r sc by (auto simp: log_def)
qed

text \<open>
  C10. A v2 archive whose slot table holds the records \<open>recs\<close> (none with id 0)
  followed by a terminator, where the ids are not the sequence 1, 2, 3, ...: the loop
  logs the warning once, however many records deviate, and returns the chunks of all
  the records, each stored under its own id with the bytes of its own offset and
  length. The whole of \<open>read_ast_from_file\<close> adds the warning to the log exactly once.
\<close>

theorem slot_mismatch_warned_once_table_walked:
  assumes magic: "take 10 raw = MAGIC"
    and tbl: "\<forall>i < length recs.
                unpack_III (slice raw (10 + 12 * i) (10 + 12 * i + 12)) = Inr (recs ! i) \<and>
                fst (recs ! i) \<noteq> 0"
    and trm: "unpack_III (slice raw (10 + 12 * length recs) (10 + 12 * length recs + 12)) =
                Inr (0, x, y)"
    and bound: "length recs < 0xFFFFFFFE"
    and dev: "map fst recs \<noteq> [1 ..< Suc (length recs)]"
  shows "parse_slots raw 1 10 Map.empty False ctx =
           (Inr (foldl (store_chunk raw) Map.empty recs), log ctx SLOT_WARNING) \<and>
         count_list (log_contents (snd (read_ast_from_file ext raw ctx))) SLOT_WARNING =
           count_list (log_contents ctx) SLOT_WARNING + 1"
proof -
  have b: "1 + length recs < 0xFFFFFFFF" using bound by simp
  have ps: "parse_slots raw 1 10 Map.empty False ctx =
           (Inr (foldl (store_chunk raw) Map.empty recs), log ctx SLOT_WARNING)"
    using parse_slots_walk [OF tbl trm b, of Map.empty False ctx] dev by simp
  have "count_list (log_contents (snd (read_ast_from_file ext raw ctx))) SLOT_WARNING =
           count_list (log_contents (log ctx SLOT_WARNING)) SLOT_WARNING"
    using magic
    by (cases "foldl (store_chunk raw) Map.empty recs 1")
       (simp_all add: read_ast_from_file_def ps load_contents_log del: One_nat_def)
  then show ?thesis using ps by (simp add: log_def)
qed

text \<open>
  An archive with the slots 3 and 1, in this order: both records deviate, the warning
  is logged once and both chunks are stored.
\<close>

theorem slot_mismatch_warned_once_table_walked_witness:
  "parse_slots unordered_archive 1 10 Map.empty False Context_init =
     (Inr (foldl (store_chunk unordered_archive) Map.empty [(3, 46, 1), (1, 47, 3)]),
      log Context_init SLOT_WARNING) \<and>
   foldl (store_chunk unordered_archive) Map.empty [(3, 46, 1), (1, 47, 3)] 1 =
     Some [0x78, 0x80, 0x2A] \<and>
   foldl (store_chunk unordered_archive) Map.empty [(3, 46, 1), (1, 47, 3)] 3 = Some [0xFF] \<and>
   count_list (log_contents (snd (read_ast_from_file demo_ext unordered_archive Context_init)))
     SLOT_WARNING = 1"
proof -
  let ?recs = "[(3, 46, 1), (1, 47, 3)] :: (nat \<times> nat \<times> nat) list"
  have magic: "take 10 unordered_archive = MAGIC"
    by (simp add: unordered_archive_def MAGIC_def)
  have r0: "unpack_III (slice unordered_archive 10 22) = Inr (3, 46, 1)"
    by (simp add: unordered_archive_def MAGIC_def unpack_III_def slice_def)
  have r1: "unpack_III (slice unordered_archive 22 34) = Inr (1, 47, 3)"
    by (simp add: unordered_archive_def MAGIC_def unpack_III_def slice_def)
  have tbl: "\<forall>i < length ?recs.
                unpack_III (slice unordered_archive (10 + 12 * i) (10 + 12 * i + 12)) =
                  Inr (?recs ! i) \<and> fst (?recs ! i) \<noteq> 0"
    using r0 r1 by (auto simp: less_Suc_eq)
  have trm: "unpack_III (slice unordered_archive (10 + 12 * length ?recs)
                (10 + 12 * length ?recs + 12)) = Inr (0, 0, 0)"
    by (simp add: unordered_archive_def MAGIC_def unpack_III_def slice_def)
  have bound: "length ?recs < 0xFFFFFFFE" by simp
  have dev: "map fst ?recs \<noteq> [1 ..< Suc (length ?recs)]" by simp
  have c1: "foldl (store_chunk unordered_archive) Map.empty ?recs 1 = Some [0x78, 0x80, 0x2A]"
    by (simp add: store_chunk_def unordered_archive_def MAGIC_def slice_def)
  have c3: "foldl (store_chunk unordered_archive) Map.empty ?recs 3 = Some [0xFF]"
    by (simp add: store_chunk_def unordered_archive_def MAGIC_def slice_def)
  show ?thesis
    using slot_mismatch_warned_once_table_walked [OF magic tbl trm bound dev, of Context_init demo_ext]
      c1 c3
    by (simp add: Context_init_def)
qed

text \<open>
  C6. A v2 archive whose slot table is slot 1 alone, or slot 1 followed by slot 2:
  \<open>read_ast_from_file\<close> decodes the bytes of slot 1's range and nothing else, so it
  returns the AST unpickled from the inflated content of slot 1, whether slot 2 is
  there or not and whatever its range holds.
\<close>

theorem slot_one_content_is_read:
  assumes magic: "take 10 raw = MAGIC"
    and rec1: "unpack_III (slice raw 10 22) = Inr (1, s1, l1)"
    and rest: "unpack_III (slice raw 22 34) = Inr (0, x, y) \<or>
               (unpack_III (slice raw 22 34) = Inr (2, s2, l2) \<and>
                unpack_III (slice raw 34 46) = Inr (0, x, y))"
    and inflate: "zlib_decompress ext (slice raw s1 (s1 + l1)) = Some inflated"
    and loads: "pickle_safe_loads ext inflated = Inr ast"
  shows "read_ast_from_file ext raw ctx = load_contents ext False (slice raw s1 (s1 + l1)) ctx \<and>
         fst (read_ast_from_file ext raw ctx) = Inr ast"
proof -
  let ?X = "slice raw s1 (s1 + l1)"
  have b1: "1 + length [(1::nat, s1, l1)] < (0xFFFFFFFF :: nat)" by simp
  have b2: "1 + length [(1::nat, s1, l1), (2, s2, l2)] < (0xFFFFFFFF :: nat)" by simp
  have "\<exists>chunks. parse_slots raw 1 10 Map.empty False ctx = (Inr chunks, ctx) \<and> chunks 1 = Some ?X"
    using rest
  proof
    assume t: "unpack_III (slice raw 22 34) = Inr (0, x, y)"
    let ?recs = "[(1::nat, s1, l1)]"
    have tbl: "\<forall>i < length ?recs.
                unpack_III (slice raw (10 + 12 * i) (10 + 12 * i + 12)) = Inr (?recs ! i) \<and>
                fst (?recs ! i) \<noteq> 0"
      using rec1 by simp
    have trm: "unpack_III (slice raw (10 + 12 * length ?recs) (10 + 12 * length ?recs + 12)) =
                Inr (0, x, y)"
      using t by simp
    have "parse_slots raw 1 10 Map.empty False ctx =
            (Inr (foldl (store_chunk raw) Map.empty ?recs), ctx)"
      using parse_slots_walk [OF tbl trm b1, of Map.empty False ctx] by simp
    moreover have "foldl (store_chunk raw) Map.empty ?recs 1 = Some ?X"
      by (simp add: store_chunk_def)
    ultimately show ?thesis by blast
  next
    assume a: "unpack_III (slice raw 22 34) = Inr (2, s2, l2) \<and>
               unpack_III (slice raw 34 46) = Inr (0, x, y)"
    let ?recs = "[(1::nat, s1, l1), (2, s2, l2)]"
    have tbl: "\<forall>i < length ?recs.
                unpack_III (slice raw (10 + 12 * i) (10 + 12 * i + 12)) = Inr (?recs ! i) \<and>
                fst (?recs ! i) \<noteq> 0"
      using rec1 a by (auto simp: less_Suc_eq)
    have trm: "unpack_III (slice raw (10 + 12 * length ?recs) (10 + 12 * length ?recs + 12)) =
                Inr (0, x, y)"
      using a by simp
    have "parse_slots raw 1 10 Map.empty False ctx =
            (Inr (foldl (store_chunk raw) Map.empty ?recs), ctx)"
      using parse_slots_walk [OF tbl trm b2, of Map.empty False ctx] by simp
    moreover have "foldl (store_chunk raw) Map.empty ?recs 1 = Some ?X"
      by (simp add: store_chunk_def)
    ultimately show ?thesis by blast
  qed
  then obtain chunks where ps: "parse_slots raw 1 10 Map.empty False ctx = (Inr chunks, ctx)"
    and c1: "chunks 1 = Some ?X"
    by blast
  have eq: "read_ast_from_file ext raw ctx = load_contents ext False ?X ctx"
    using magic by (simp add: read_ast_from_file_def ps c1 del: One_nat_def)
  moreover have "fst (load_contents ext False ?X ctx) = Inr ast"
    using inflate loads by (simp add: load_contents_def Let_def lift_ext_def)
  ultimately show ?thesis by simp
qed

text \<open>
  The archive with two slots: the AST is the one of slot 1.
\<close>

theorem slot_one_content_is_read_witness:
  "slice two_slot_archive 46 (46 + 3) = [0x78, 0x80, 0x2A] \<and>
   fst (read_ast_from_file demo_ext two_slot_archive Context_init) = Inr [0x2A]"
proof -
  have magic: "take 10 two_slot_archive = MAGIC"
    by (simp add: two_slot_archive_def MAGIC_def)
  have rec1: "unpack_III (slice two_slot_archive 10 22) = Inr (1, 46, 3)"
    by (simp add: two_slot_archive_def MAGIC_def unpack_III_def slice_def)
  have rest: "unpack_III (slice two_slot_archive 22 34) = Inr (0, 0, 0) \<or>
               (unpack_III (slice two_slot_archive 22 34) = Inr (2, 49, 2) \<and>
                unpack_III (slice two_slot_archive 34 46) = Inr (0, 0, 0))"
    by (simp add: two_slot_archive_def MAGIC_def unpack_III_def slice_def)
  have x: "slice two_slot_archive 46 (46 + 3) = [0x78, 0x80, 0x2A]"
    by (simp add: two_slot_archive_def MAGIC_def slice_def)
  have inflate: "zlib_decompress demo_ext (slice two_slot_archive 46 (46 + 3)) = Some [0x80, 0x2A]"
    unfolding x by (simp add: demo_ext_def)
  have loads: "pickle_safe_loads demo_ext [0x80, 0x2A] = Inr [0x2A]"
    by (simp add: demo_ext_def)
  show ?thesis
    using slot_one_content_is_read [OF magic rec1 rest inflate loads, of Context_init] x
    by blast
qed

section \<open>Merging the translations\<close>

lemma dom_foldl_map_add: "dom (foldl (++) m ms) = dom m \<union> (\<Union>x \<in> set ms. dom x)"
  by (induction ms arbitrary: m) auto

lemma foldl_map_add_last_writer:
  "i < length ms \<Longrightarrow> (ms ! i) k = Some v \<Longrightarrow>
   (\<forall>j. i < j \<and> j < length ms \<longrightarrow> (ms ! j) k = None) \<Longrightarrow>
   foldl (++) m ms k = Some v"
proof (induction ms arbitrary: i rule: rev_induct)
  case Nil
  then show ?case by simp
next
  case (snoc x xs)
  show ?case
  proof (cases "i = length xs")
    case True
    with snoc.prems(2) have "x k = Some v" by simp
    then show ?thesis by (simp add: map_add_find_right)
  next
    case False
    with snoc.prems(1) have i: "i < length xs" by simp
    from snoc.prems(3) i have "x k = None"
      by (metis length_append_singleton lessI nth_append_length)
    moreover have "foldl (++) m xs k = Some v"
    proof (rule snoc.IH [OF i])
      from snoc.prems(2) i show "(xs ! i) k = Some v" by (simp add: nth_append)
      show "\<forall>j. i < j \<and> j < length xs \<longrightarrow> (xs ! j) k = None"
      proof (intro allI impI)
        fix j assume j: "i < j \<and> j < length xs"
        then have "i < j \<and> j < length (xs @ [x])" by simp
        with snoc.prems(3) have "((xs @ [x]) ! j) k = None" by blast
        with j show "(xs ! j) k = None" by (simp add: nth_append)
      qed
    qed
    ultimately show ?thesis by (simp add: map_add_dom_app_simps domIff)
  qed
qed

lemma merge_translations_fold:
  assumes "\<forall>r \<in> set results. \<forall>d s. result_value r = Some (d, s) \<longrightarrow>
             pickle_loads ext d = Inr (loaded d)"
  shows "merge_translations ext D S results =
           Inr (foldl (++) D (map (\<lambda>b. loaded (fst b)) (List.map_filter result_value results)),
                foldl (++) S (map snd (List.map_filter result_value results)))"
  using assms
proof (induction results arbitrary: D S)
  case Nil
  then show ?case by simp
next
  case (Cons r rs)
  then have rest: "\<forall>r \<in> set rs. \<forall>d s. result_value r = Some (d, s) \<longrightarrow>
             pickle_loads ext d = Inr (loaded d)"
    by simp
  show ?case
  proof (cases "result_value r")
    case None
    then show ?thesis using Cons.IH [OF rest] by simp
  next
    case (Some b)
    obtain d s where b: "b = (d, s)" by (cases b) auto
    with Some Cons.prems have "pickle_loads ext d = Inr (loaded d)" by simp
    with Some b show ?thesis
      using Cons.IH [OF rest] by (simp add: lift_ext_def)
  qed
qed

text \<open>
  C7. When every dumped dialogue loads, the merge loop returns the dialogues of the
  results that carry a value, folded with dictionary update in the order of the
  results, and the same for the strings. So the keys of the merged dialogue (of the
  merged strings) are the union of the keys of the files, and a key that several
  files define keeps the value of the last file that defines it.
\<close>

theorem merge_translations_ordered_union:
  assumes "\<forall>r \<in> set results. \<forall>d s. result_value r = Some (d, s) \<longrightarrow>
             pickle_loads ext d = Inr (loaded d)"
  shows "(let bundles = List.map_filter result_value results;
              dialogues = map (\<lambda>b. loaded (fst b)) bundles;
              strs = map snd bundles;
              merged_dialogue = foldl (++) Map.empty dialogues;
              merged_strings = foldl (++) Map.empty strs
          in merge_translations ext Map.empty Map.empty results =
               Inr (merged_dialogue, merged_strings) \<and>
             dom merged_dialogue = (\<Union>d \<in> set dialogues. dom d) \<and>
             dom merged_strings = (\<Union>s \<in> set strs. dom s) \<and>
             (\<forall>i k v. i < length dialogues \<and> (dialogues ! i) k = Some v \<and>
                      (\<forall>j. i < j \<and> j < length dialogues \<longrightarrow> (dialogues ! j) k = None)
                      \<longrightarrow> merged_dialogue k = Some v))"
proof -
  let ?ds = "map (\<lambda>b. loaded (fst b)) (List.map_filter result_value results)"
  let ?ss = "map snd (List.map_filter result_value results)"
  have m: "merge_translations ext Map.empty Map.empty results =
             Inr (foldl (++) Map.empty ?ds, foldl (++) Map.empty ?ss)"
    by (rule merge_translations_fold [OF assms])
  have d1: "dom (foldl (++) Map.empty ?ds) = (\<Union>d \<in> set ?ds. dom d)"
    unfolding dom_foldl_map_add by simp
  have d2: "dom (foldl (++) Map.empty ?ss) = (\<Union>s \<in> set ?ss. dom s)"
    unfolding dom_foldl_map_add by simp
  have lw: "\<forall>i k v. i < length ?ds \<and> (?ds ! i) k = Some v \<and>
                      (\<forall>j. i < j \<and> j < length ?ds \<longrightarrow> (?ds ! j) k = None)
                      \<longrightarrow> foldl (++) Map.empty ?ds k = Some v"
  proof (intro allI impI)
    fix i k v
    assume A: "i < length ?ds \<and> (?ds ! i) k = Some v \<and>
                      (\<forall>j. i < j \<and> j < length ?ds \<longrightarrow> (?ds ! j) k = None)"
    from A have 1: "i < length ?ds" by (rule conjunct1)
    from A have 2: "(?ds ! i) k = Some v" by (rule conjunct2 [THEN conjunct1])
    from A have 3: "\<forall>j. i < j \<and> j < length ?ds \<longrightarrow> (?ds ! j) k = None"
      by (rule conjunct2 [THEN conjunct2])
    show "foldl (++) Map.empty ?ds k = Some v"
      by (rule foldl_map_add_last_writer [OF 1 2 3])
  qed
  show ?thesis
    unfolding Let_def using m d1 d2 lw by (intro conjI)
qed

text \<open>
  Three bundles and a context without result: the first and the second bundle both
  define \<open>k1\<close>, and the value of the second is kept.
\<close>

theorem merge_translations_ordered_union_witness:
  "\<exists>dlg strs.
     merge_translations demo_ext Map.empty Map.empty
       [Context_init\<lparr>result_value := Some ([1, 0x61], [''s1'' \<mapsto> ''x''])\<rparr>,
        Context_init,
        Context_init\<lparr>result_value := Some ([1, 0x62], [''s2'' \<mapsto> ''y''])\<rparr>,
        Context_init\<lparr>result_value := Some ([2, 0x63], Map.empty)\<rparr>] = Inr (dlg, strs) \<and>
     dlg ''k1'' = Some [0x62] \<and> dlg ''k2'' = Some [0x63] \<and>
     strs ''s1'' = Some ''x'' \<and> strs ''s2'' = Some ''y''"
proof -
  let ?loaded = "\<lambda>b :: bytes. case b of [] \<Rightarrow> Map.empty
                   | x # xs \<Rightarrow> (if x = 1 then [''k1'' \<mapsto> xs] else [''k2'' \<mapsto> xs])"
  let ?results = "[Context_init\<lparr>result_value := Some ([1, 0x61], [''s1'' \<mapsto> ''x''])\<rparr>,
        Context_init,
        Context_init\<lparr>result_value := Some ([1, 0x62], [''s2'' \<mapsto> ''y''])\<rparr>,
        Context_init\<lparr>result_value := Some ([2, 0x63], Map.empty)\<rparr>]"
  have h: "\<forall>r \<in> set ?results. \<forall>d s. result_value r = Some (d, s) \<longrightarrow>
             pickle_loads demo_ext d = Inr (?loaded d)"
    by (simp add: demo_ext_def Context_init_def)
  show ?thesis
    using merge_translations_ordered_union [OF h]
    by (simp add: Let_def Context_init_def List.map_filter_simps)
qed


section \<open>The checks before any file is read\<close>

text \<open>
  C8. With \<open>comparable\<close> or \<open>no_pyexpr\<close> and no \<open>dump\<close>, with a translation file to read
  or to write together with \<open>try_harder\<close> or \<open>dump\<close>, or with an output translation file
  that exists and no \<open>clobber\<close>, \<open>main\<close> ends in \<^verbatim>\<open>ap.error\<close> with the world it was
  given: no file was opened, read or written, and no worker ran.
\<close>

theorem invalid_arguments_abort_before_any_file:
  assumes "((comparable a \<or> no_pyexpr a) \<and> \<not> dump a) \<or>
           ((translation_file a \<noteq> None \<or> write_translation_file a \<noteq> None) \<and>
            (try_harder a \<or> dump a)) \<or>
           (\<exists>out. write_translation_file a = Some out \<and> exists_path w out \<and> \<not> clobber a)"
  shows "\<exists>message. main ext expand w a = (ArgumentError message, w)"
proof -
  have "preflight w a \<noteq> None"
    using assms by (auto simp: preflight_def truthy_path_def)
  then obtain message where "preflight w a = Some message" by auto
  then show ?thesis by (simp add: main_def)
qed

text \<open>
  One command line for each of the three checks.
\<close>

theorem invalid_arguments_abort_before_any_file_witness:
  "(\<exists>message. main demo_ext (\<lambda>w fs. [script_rpyc]) (world_of [(script_rpyc, two_slot_archive)])
       (demo_args\<lparr>comparable := True\<rparr>) =
       (ArgumentError message, world_of [(script_rpyc, two_slot_archive)])) \<and>
   (\<exists>message. main demo_ext (\<lambda>w fs. [script_rpyc]) (world_of [(script_rpyc, two_slot_archive)])
       (demo_args\<lparr>translation_file := Some script_rpy, try_harder := True\<rparr>) =
       (ArgumentError message, world_of [(script_rpyc, two_slot_archive)])) \<and>
   (\<exists>message. main demo_ext (\<lambda>w fs. [script_rpyc])
       (world_of [(script_rpyc, two_slot_archive), (script_rpy, [0x41])])
       (demo_args\<lparr>write_translation_file := Some script_rpy\<rparr>) =
       (ArgumentError message, world_of [(script_rpyc, two_slot_archive), (script_rpy, [0x41])]))"
proof -
  let ?w = "world_of [(script_rpyc, two_slot_archive)]"
  let ?w2 = "world_of [(script_rpyc, two_slot_archive), (script_rpy, [0x41])]"
  let ?a1 = "demo_args\<lparr>comparable := True\<rparr>"
  let ?a2 = "demo_args\<lparr>translation_file := Some script_rpy, try_harder := True\<rparr>"
  let ?a3 = "demo_args\<lparr>write_translation_file := Some script_rpy\<rparr>"
  have h1: "((comparable ?a1 \<or> no_pyexpr ?a1) \<and> \<not> dump ?a1) \<or>
           ((translation_file ?a1 \<noteq> None \<or> write_translation_file ?a1 \<noteq> None) \<and>
            (try_harder ?a1 \<or> dump ?a1)) \<or>
           (\<exists>out. write_translation_file ?a1 = Some out \<and> exists_path ?w out \<and> \<not> clobber ?a1)"
    by (simp add: demo_args_def)
  have h2: "((comparable ?a2 \<or> no_pyexpr ?a2) \<and> \<not> dump ?a2) \<or>
           ((translation_file ?a2 \<noteq> None \<or> write_translation_file ?a2 \<noteq> None) \<and>
            (try_harder ?a2 \<or> dump ?a2)) \<or>
           (\<exists>out. write_translation_file ?a2 = Some out \<and> exists_path ?w out \<and> \<not> clobber ?a2)"
    by (simp add: demo_args_def)
  have h3: "((comparable ?a3 \<or> no_pyexpr ?a3) \<and> \<not> dump ?a3) \<or>
           ((translation_file ?a3 \<noteq> None \<or> write_translation_file ?a3 \<noteq> None) \<and>
            (try_harder ?a3 \<or> dump ?a3)) \<or>
           (\<exists>out. write_translation_file ?a3 = Some out \<and> exists_path ?w2 out \<and> \<not> clobber ?a3)"
    by (simp add: demo_args_def exists_path_def world_of_def script_rpy_def script_rpyc_def)
  show ?thesis
    using invalid_arguments_abort_before_any_file [OF h1, of demo_ext "\<lambda>w fs. [script_rpyc]"]
      invalid_arguments_abort_before_any_file [OF h2, of demo_ext "\<lambda>w fs. [script_rpyc]"]
      invalid_arguments_abort_before_any_file [OF h3, of demo_ext "\<lambda>w fs. [script_rpyc]"]
    by blast
qed


section \<open>The choice between pool and sequential run\<close>






end
